theory Spec2Isabelle
  imports Main "HOL-Library.AList"
begin

text \<open>
  A shallow embedding of the remlog server, \<^verbatim>\<open>packages/server/Server.js\<close>: the
  constructor, \<^verbatim>\<open>Server.trace\<close>, the middleware chain of \<^verbatim>\<open>attachMiddleware\<close> and the
  routes and error handler of \<^verbatim>\<open>attachRouter\<close>. A request is handled by a function from
  the request and the state of the world (the log file, the store writes not yet landed)
  to the response and the new state. What Express, Node and the other packages of the
  repository do is either written out where the server relies on it (\<^verbatim>\<open>next(err)\<close> goes
  to the error handler, an exception in a \<^verbatim>\<open>fs.readFile\<close> callback is caught by nobody)
  or taken as a parameter.
\<close>

section \<open>JavaScript values\<close>

text \<open>
  The server of \<^verbatim>\<open>packages/server/Server.js\<close> handles untyped JavaScript values: request
  bodies, parsed JSON, thrown errors. They are modelled by one datatype. An array carries
  its elements and the named properties assigned to it (\<^verbatim>\<open>payload.host = ...\<close> on an
  array payload adds such a property). An \<^verbatim>\<open>Error\<close> object is an object with a
  \<^verbatim>\<open>message\<close> property. JSON numbers are integers here; the code only tests numbers for
  truthiness.
\<close>

datatype jsval =
    JUndefined
  | JNull
  | JBool bool
  | JNum int
  | JStr string
  | JArr "jsval list" "(string \<times> jsval) list"
  | JObj "(string \<times> jsval) list"

text \<open>A computation that may throw: \<open>Inl\<close> carries the thrown value.\<close>

type_synonym 'a result = "jsval + 'a"

definition js_Error :: "string \<Rightarrow> jsval" where
  "js_Error msg = JObj [(''message'', JStr msg)]"

fun truthy :: "jsval \<Rightarrow> bool" where
  "truthy JUndefined = False"
| "truthy JNull = False"
| "truthy (JBool b) = b"
| "truthy (JNum n) = (n \<noteq> 0)"
| "truthy (JStr s) = (s \<noteq> [])"
| "truthy (JArr xs ps) = True"
| "truthy (JObj ps) = True"

text \<open>The operator \<^verbatim>\<open>a || b\<close>.\<close>

definition js_or :: "jsval \<Rightarrow> jsval \<Rightarrow> jsval" where
  "js_or a b = (if truthy a then a else b)"

text \<open>
  Property read \<^verbatim>\<open>v.k\<close>, for the property names the server reads (\<^verbatim>\<open>id\<close>,
  \<^verbatim>\<open>timestamp\<close>, \<^verbatim>\<open>message\<close>): a \<^verbatim>\<open>TypeError\<close> on \<^verbatim>\<open>null\<close> and \<^verbatim>\<open>undefined\<close>,
  \<^verbatim>\<open>undefined\<close> on a primitive or on an object without the property.
\<close>

fun get_prop :: "jsval \<Rightarrow> string \<Rightarrow> jsval result" where
  "get_prop JUndefined k = Inl (js_Error (''Cannot read property '' @ k @ '' of undefined''))"
| "get_prop JNull k = Inl (js_Error (''Cannot read property '' @ k @ '' of null''))"
| "get_prop (JObj ps) k = Inr (case map_of ps k of None \<Rightarrow> JUndefined | Some v \<Rightarrow> v)"
| "get_prop (JArr xs ps) k = Inr (case map_of ps k of None \<Rightarrow> JUndefined | Some v \<Rightarrow> v)"
| "get_prop v k = Inr JUndefined"

text \<open>The values whose properties can be read: all but \<^verbatim>\<open>null\<close> and \<^verbatim>\<open>undefined\<close>.\<close>

definition readable :: "jsval \<Rightarrow> bool" where
  "readable l = (l \<noteq> JNull \<and> l \<noteq> JUndefined)"

text \<open>
  Property write \<^verbatim>\<open>v.k = x\<close> in strict mode (a class body is strict code): a
  \<^verbatim>\<open>TypeError\<close> on \<^verbatim>\<open>null\<close>, \<^verbatim>\<open>undefined\<close> and on a primitive; on an object the
  property is replaced in place or appended.
\<close>

fun set_prop :: "jsval \<Rightarrow> string \<Rightarrow> jsval \<Rightarrow> jsval result" where
  "set_prop (JObj ps) k x = Inr (JObj (AList.update k x ps))"
| "set_prop (JArr xs ps) k x = Inr (JArr xs (AList.update k x ps))"
| "set_prop v k x = Inl (js_Error (''Cannot set property '' @ k))"

section \<open>Requests, responses and the world\<close>

text \<open>
  The route is the one Express has matched, with the \<^verbatim>\<open>:id\<close> parameter of
  \<^verbatim>\<open>/logs/:id.json\<close>. \<open>Static\<close> is a file below \<^verbatim>\<open>/.resources\<close>; \<open>NoMatch\<close> is any
  other request.
\<close>

datatype route =
    Static string
  | Index
  | Info
  | LogsJson
  | LogById string
  | TracerJpg
  | PostTrace
  | NoMatch

text \<open>
  \<open>req_method\<close> is \<^verbatim>\<open>req.method\<close>, in upper case as Node gives it. \<open>body\<close> is what the
  body parsers leave in \<^verbatim>\<open>req.body\<close>, or the error they pass to \<^verbatim>\<open>next\<close>. \<open>query\<close> is
  \<^verbatim>\<open>req.query\<close>: the object that the query parser of Express builds from the query
  string, never the string itself.
\<close>

record request =
  req_method :: string
  route :: route
  headers :: "string \<rightharpoonup> string"
  remoteAddress :: jsval
  ip :: string
  body :: "jsval result"
  query :: "(string \<times> jsval) list"

definition header :: "request \<Rightarrow> string \<Rightarrow> jsval" where
  "header req k = (case headers req k of None \<Rightarrow> JUndefined | Some v \<Rightarrow> JStr v)"

datatype content =
    NoContent
  | Json jsval
  | Text string
  | File string
  | View string jsval

record response =
  statusCode :: nat
  res_headers :: "(string \<times> string) list"
  content :: content

definition fresh_response :: response where
  "fresh_response = \<lparr>statusCode = 200, res_headers = [], content = NoContent\<rparr>"

definition setHeader :: "string \<Rightarrow> string \<Rightarrow> response \<Rightarrow> response" where
  "setHeader k v res = res\<lparr>res_headers := AList.update k v (res_headers res)\<rparr>"

definition status :: "nat \<Rightarrow> response \<Rightarrow> response" where
  "status n res = res\<lparr>statusCode := n\<rparr>"

definition json :: "jsval \<Rightarrow> response \<Rightarrow> response" where
  "json v res = res\<lparr>content := Json v\<rparr>"

text \<open>
  A request ends with a response, or with an exception that nothing catches: one thrown
  inside a \<^verbatim>\<open>fs.readFile\<close> callback is outside every \<^verbatim>\<open>try\<close> and outside Express, and
  no response is sent.
\<close>

datatype outcome = Responded response | Uncaught jsval

text \<open>
  The file \<^verbatim>\<open>GENERIC_TRANSPORT_LOGFILE\<close> as \<^verbatim>\<open>fs.readFile\<close> and \<^verbatim>\<open>JSON.parse\<close> see
  it: the read fails with an \<^verbatim>\<open>Error\<close> of the given message (the file is absent or
  unreadable), or the text is not JSON and \<^verbatim>\<open>JSON.parse\<close> throws a
  \<^verbatim>\<open>SyntaxError\<close> of the given message, or it parses to a value.
\<close>

datatype logfile = ReadError string | NotJson string | Parsed jsval

text \<open>
  \<open>pending\<close> holds the records whose store write has been accepted and has not landed
  yet.
\<close>

record world =
  logfile :: logfile
  pending :: "jsval list"

text \<open>
  The collaborators that are not part of \<^verbatim>\<open>Server.js\<close> are parameters:
  \<^verbatim>\<open>new Scheme(payload).get()\<close>, the fields of \<^verbatim>\<open>package.json\<close>, and the clock read by
  \<^verbatim>\<open>new Date().toISOString()\<close> (every read within one request returns the same instant).
  So are the two built-in functions of the engine, beyond what is written out of them
  below: \<open>percent_decode\<close> is \<^verbatim>\<open>decodeURIComponent\<close> on a string with an escape sequence,
  \<open>JSON_engine\<close> is \<^verbatim>\<open>JSON.parse\<close> on a text that the first look does not reject.
\<close>

record env =
  Scheme_get :: "jsval \<Rightarrow> jsval result"
  pkg_name :: string
  pkg_version :: string
  now :: string
  percent_decode :: "string \<Rightarrow> string result"
  JSON_engine :: "string \<Rightarrow> jsval result"

section \<open>The built-in functions\<close>

text \<open>
  A built-in function that expects a string converts its argument first. For a plain
  object the conversion is \<^verbatim>\<open>Object.prototype.toString\<close>, whatever the properties.
\<close>

definition toString_object :: "(string \<times> jsval) list \<Rightarrow> string" where
  "toString_object ps = ''[object Object]''"

text \<open>\<^verbatim>\<open>decodeURIComponent\<close> returns a string without \<^verbatim>\<open>%\<close> as it is.\<close>

definition decodeURIComponent :: "env \<Rightarrow> string \<Rightarrow> string result" where
  "decodeURIComponent E s = (if CHR ''%'' \<in> set s then percent_decode E s else Inr s)"

text \<open>
  \<^verbatim>\<open>JSON.parse\<close>, as far as the grammar decides at the first look. A JSON text is a
  value between white space; a value begins with a double quote, a minus sign, a digit,
  a bracket, a brace, or the first letter of \<^verbatim>\<open>true\<close>, \<^verbatim>\<open>false\<close> or \<^verbatim>\<open>null\<close>; after
  the bracket that opens an array comes the closing bracket or a value. A text that
  fails this look is rejected with a \<^verbatim>\<open>SyntaxError\<close> (the wording of its message is the
  engine's; one is fixed here).
\<close>

definition json_ws :: "char \<Rightarrow> bool" where
  "json_ws c = (c = CHR '' '' \<or> c = CHR 0x09 \<or> c = CHR 0x0A \<or> c = CHR 0x0D)"

definition starts_value :: "char \<Rightarrow> bool" where
  "starts_value c = (c = CHR 0x22 \<or> c \<in> set ''-0123456789[{tfn'')"

definition no_json_start :: "string \<Rightarrow> bool" where
  "no_json_start s =
     (case dropWhile json_ws s of
        [] \<Rightarrow> True
      | c # cs \<Rightarrow>
          if c = CHR ''['' then
            (case dropWhile json_ws cs of
               [] \<Rightarrow> True
             | d # ds \<Rightarrow> d \<noteq> CHR '']'' \<and> \<not> starts_value d)
          else \<not> starts_value c)"

definition SyntaxError :: jsval where
  "SyntaxError = js_Error ''Unexpected token in JSON''"

definition JSON_parse :: "env \<Rightarrow> string \<Rightarrow> jsval result" where
  "JSON_parse E s = (if no_json_start s then Inl SyntaxError else JSON_engine E s)"

section \<open>The error handler and the log readers\<close>

text \<open>
  \<^verbatim>\<open>const errorMessage = err.message || err || 'Unknown error'\<close>, then
  \<^verbatim>\<open>res.status(500).json({timestamp, error: errorMessage, httpStatus: 500})\<close>. Express
  enters an error middleware with a truthy \<^verbatim>\<open>err\<close> only, so the read of
  \<^verbatim>\<open>err.message\<close> does not throw there.
\<close>

definition errorMessage :: "jsval \<Rightarrow> jsval result" where
  "errorMessage err =
     (case get_prop err ''message'' of
        Inl e \<Rightarrow> Inl e
      | Inr m \<Rightarrow> Inr (js_or m (js_or err (JStr ''Unknown error''))))"

definition error_envelope :: "env \<Rightarrow> jsval \<Rightarrow> jsval" where
  "error_envelope E msg =
     JObj [(''timestamp'', JStr (now E)), (''error'', msg), (''httpStatus'', JNum 500)]"

definition error_handler :: "env \<Rightarrow> response \<Rightarrow> jsval \<Rightarrow> outcome" where
  "error_handler E res err =
     (case errorMessage err of
        Inl e \<Rightarrow> Uncaught e
      | Inr msg \<Rightarrow> Responded (json (error_envelope E msg) (status 500 res)))"

text \<open>\<^verbatim>\<open>GET /\<close>: \<^verbatim>\<open>let logs = err ? [] : JSON.parse(data)\<close>, then the view is rendered.\<close>

definition render :: "string \<Rightarrow> jsval \<Rightarrow> response \<Rightarrow> response" where
  "render view logs res = res\<lparr>content := View view logs\<rparr>"

definition get_index :: "env \<Rightarrow> response \<Rightarrow> world \<Rightarrow> outcome" where
  "get_index E res w =
     (case logfile w of
        ReadError err \<Rightarrow> Responded (render ''index'' (JArr [] []) res)
      | NotJson e \<Rightarrow> Uncaught (js_Error e)
      | Parsed logs \<Rightarrow> Responded (render ''index'' logs res))"

text \<open>\<^verbatim>\<open>GET /info\<close>.\<close>

definition get_info :: "env \<Rightarrow> response \<Rightarrow> outcome" where
  "get_info E res = Responded (res\<lparr>content := Text (pkg_name E @ '' v'' @ pkg_version E)\<rparr>)"

text \<open>\<^verbatim>\<open>GET /logs.json\<close>: \<^verbatim>\<open>if (err) { return next(err); }\<close>, then the parsed file is sent.\<close>

definition get_logs_json :: "env \<Rightarrow> response \<Rightarrow> world \<Rightarrow> outcome" where
  "get_logs_json E res w =
     (case logfile w of
        ReadError err \<Rightarrow> error_handler E res (js_Error err)
      | NotJson e \<Rightarrow> Uncaught (js_Error e)
      | Parsed logs \<Rightarrow> Responded (json logs res))"

text \<open>
  \<^verbatim>\<open>GET /logs/:id.json\<close>. The \<^verbatim>\<open>forEach\<close> loop keeps in \<^verbatim>\<open>selected\<close> the last entry
  whose \<^verbatim>\<open>id\<close> is strictly equal to the string \<^verbatim>\<open>req.params.id\<close>; reading \<^verbatim>\<open>id\<close> of a
  \<^verbatim>\<open>null\<close> entry throws. \<open>record_id\<close> is the \<^verbatim>\<open>id\<close> of an entry that can be read.
\<close>

definition record_id :: "jsval \<Rightarrow> jsval" where
  "record_id l = (case get_prop l ''id'' of Inl e \<Rightarrow> JUndefined | Inr i \<Rightarrow> i)"

fun select_log :: "string \<Rightarrow> jsval list \<Rightarrow> jsval \<Rightarrow> jsval result" where
  "select_log rid [] selected = Inr selected"
| "select_log rid (l # ls) selected =
     (case get_prop l ''id'' of
        Inl e \<Rightarrow> Inl e
      | Inr i \<Rightarrow> select_log rid ls (if i = JStr rid then l else selected))"

definition not_found :: "string \<Rightarrow> jsval" where
  "not_found rid = js_Error (''Logfile with ID '' @ rid @ '' was not found'')"

definition get_log_by_id :: "env \<Rightarrow> response \<Rightarrow> string \<Rightarrow> world \<Rightarrow> outcome" where
  "get_log_by_id E res rid w =
     (case logfile w of
        ReadError err \<Rightarrow> error_handler E res (js_Error err)
      | NotJson e \<Rightarrow> Uncaught (js_Error e)
      | Parsed (JArr logs ps) \<Rightarrow>
          (case select_log rid logs JUndefined of
             Inl e \<Rightarrow> Uncaught e
           | Inr selected \<Rightarrow>
               if \<not> truthy selected then error_handler E res (not_found rid)
               else Responded (json selected res))
      | Parsed v \<Rightarrow> Uncaught (js_Error ''logs.forEach is not a function''))"

section \<open>The server object\<close>

text \<open>
  A transport is an object of the package \<^verbatim>\<open>@namics/remlog-transports\<close>, which is not
  part of \<^verbatim>\<open>Server.js\<close>; the server calls two of its methods. Each is a parameter: it
  may change the world and may throw. \<open>transport_trace\<close> receives the callback it is
  given and decides whether and when to run it.
\<close>

record transport_obj =
  transport_trace ::
    "jsval \<Rightarrow> (world \<Rightarrow> unit result \<times> world) \<Rightarrow> world \<Rightarrow> unit result \<times> world"
  saveTraceToLock :: "jsval \<Rightarrow> world \<Rightarrow> unit result \<times> world"

record config =
  port :: jsval
  transport :: jsval
  cors :: jsval
  ssl :: jsval

record server =
  srv_config :: config
  transportId :: jsval
  srv_transport :: transport_obj

section \<open>Server.trace\<close>

text \<open>
  \<^verbatim>\<open>payload.host = req.headers['x-forwarded-for'] || req.connection.remoteAddress\<close>
\<close>

definition origin :: "request \<Rightarrow> jsval" where
  "origin req = js_or (header req ''x-forwarded-for'') (remoteAddress req)"

text \<open>
  The two assignments that open the \<^verbatim>\<open>try\<close> block: \<^verbatim>\<open>payload.host\<close>, then
  \<^verbatim>\<open>payload.timestamp = payload.timestamp || new Date().toISOString()\<close>.
\<close>

definition stamp :: "env \<Rightarrow> request \<Rightarrow> jsval \<Rightarrow> jsval result" where
  "stamp E req payload =
     (case set_prop payload ''host'' (origin req) of
        Inl e \<Rightarrow> Inl e
      | Inr p1 \<Rightarrow>
          (case get_prop p1 ''timestamp'' of
             Inl e \<Rightarrow> Inl e
           | Inr ts \<Rightarrow> set_prop p1 ''timestamp'' (js_or ts (JStr (now E)))))"

text \<open>
  The \<^verbatim>\<open>try\<close> block. \<open>next\<close> is the fourth argument of \<^verbatim>\<open>trace\<close>: the continuation
  of the route, which sends the response or throws. What the transport did to the world
  before an exception stays done.
\<close>

definition trace_try ::
  "server \<Rightarrow> env \<Rightarrow> jsval \<Rightarrow> request \<Rightarrow> (jsval \<Rightarrow> outcome result) \<Rightarrow> world
     \<Rightarrow> outcome result \<times> world" where
  "trace_try S E payload req next w =
     (case stamp E req payload of
        Inl e \<Rightarrow> (Inl e, w)
      | Inr p \<Rightarrow>
          (case Scheme_get E p of
             Inl e \<Rightarrow> (Inl e, w)
           | Inr r \<Rightarrow>
               (case transport_trace (srv_transport S) r
                       (saveTraceToLock (srv_transport S) r) w of
                  (Inl e, w') \<Rightarrow> (Inl e, w')
                | (Inr u, w') \<Rightarrow> (next r, w'))))"

text \<open>
  The \<^verbatim>\<open>catch\<close> block reads \<^verbatim>\<open>e.message\<close> for the log line and calls the same
  continuation with \<^verbatim>\<open>{id: null, error: e}\<close>. An exception of the \<^verbatim>\<open>catch\<close> block
  leaves \<^verbatim>\<open>trace\<close>.
\<close>

definition failure :: "jsval \<Rightarrow> jsval" where
  "failure e = JObj [(''id'', JNull), (''error'', e)]"

definition trace ::
  "server \<Rightarrow> env \<Rightarrow> jsval \<Rightarrow> request \<Rightarrow> (jsval \<Rightarrow> outcome result) \<Rightarrow> world
     \<Rightarrow> outcome result \<times> world" where
  "trace S E payload req next w =
     (case trace_try S E payload req next w of
        (Inr out, w') \<Rightarrow> (Inr out, w')
      | (Inl e, w') \<Rightarrow>
          (case get_prop e ''message'' of
             Inl e' \<Rightarrow> (Inl e', w')
           | Inr m \<Rightarrow> (next (failure e), w')))"

section \<open>The ingestion routes\<close>

text \<open>
  \<^verbatim>\<open>POST /trace\<close>. The continuation is
  \<^verbatim>\<open>(payload = {}) => res.status(200).json({timestamp, error: null, id: payload.id,
  httpStatus: 200})\<close>. An exception that leaves the route is caught by Express and given
  to the error handler.
\<close>

definition accepted :: "env \<Rightarrow> jsval \<Rightarrow> jsval" where
  "accepted E i =
     JObj [(''timestamp'', JStr (now E)), (''error'', JNull), (''id'', i),
           (''httpStatus'', JNum 200)]"

definition post_trace_next :: "env \<Rightarrow> response \<Rightarrow> jsval \<Rightarrow> outcome result" where
  "post_trace_next E res arg =
     (let payload = (if arg = JUndefined then JObj [] else arg) in
      case get_prop payload ''id'' of
        Inl e \<Rightarrow> Inl e
      | Inr i \<Rightarrow> Inr (Responded (json (accepted E i) (status 200 res))))"

definition post_trace ::
  "server \<Rightarrow> env \<Rightarrow> request \<Rightarrow> jsval \<Rightarrow> response \<Rightarrow> world \<Rightarrow> outcome \<times> world" where
  "post_trace S E req payload res w =
     (case trace S E payload req (post_trace_next E res) w of
        (Inr out, w') \<Rightarrow> (out, w')
      | (Inl e, w') \<Rightarrow> (error_handler E res e, w'))"

text \<open>
  \<^verbatim>\<open>GET /tracer.jpg\<close>. The handler starts with
  \<^verbatim>\<open>const payload = JSON.parse(decodeURIComponent(req.query))\<close>, outside every \<^verbatim>\<open>try\<close>:
  an exception of this line is caught by Express and given to the error handler. The
  continuation ignores its argument:
  \<^verbatim>\<open>res.setHeader('Content-Type', 'image/jpeg'); res.status(200).sendFile(...)\<close>.
\<close>

definition tracer_next :: "response \<Rightarrow> jsval \<Rightarrow> outcome result" where
  "tracer_next res arg =
     Inr (Responded ((status 200 (setHeader ''Content-Type'' ''image/jpeg'' res))
            \<lparr>content := File ''src/tracer.jpg''\<rparr>))"

definition get_tracer ::
  "server \<Rightarrow> env \<Rightarrow> request \<Rightarrow> response \<Rightarrow> world \<Rightarrow> outcome \<times> world" where
  "get_tracer S E req res w =
     (case decodeURIComponent E (toString_object (query req)) of
        Inl e \<Rightarrow> (error_handler E res e, w)
      | Inr text \<Rightarrow>
          (case JSON_parse E text of
             Inl e \<Rightarrow> (error_handler E res e, w)
           | Inr payload \<Rightarrow>
               (case trace S E payload req (tracer_next res) w of
                  (Inr out, w') \<Rightarrow> (out, w')
                | (Inl e, w') \<Rightarrow> (error_handler E res e, w'))))"

section \<open>Middleware and routing\<close>

text \<open>
  \<^verbatim>\<open>attachMiddleware\<close> installs, in this order: \<^verbatim>\<open>helmet\<close>, \<^verbatim>\<open>cors\<close>,
  \<^verbatim>\<open>compression\<close>, the two body parsers, the view engine, and the middleware that sets
  the two \<^verbatim>\<open>X-RemLog\<close> headers; \<^verbatim>\<open>attachRouter\<close> then installs the routes and, last,
  the error handler. A middleware that calls \<^verbatim>\<open>next(err)\<close> sends the request to the
  error handler past everything in between. The \<^verbatim>\<open>cors\<close> middleware answers a
  preflight request (method \<^verbatim>\<open>OPTIONS\<close>) itself, with status 204, and calls \<^verbatim>\<open>next\<close>
  for no such request. The headers that \<^verbatim>\<open>helmet\<close>, \<^verbatim>\<open>cors\<close> and \<^verbatim>\<open>compression\<close> add
  are not modelled.
\<close>

definition CORS_ALL_HOSTS_ENABLED :: "jsval list" where
  "CORS_ALL_HOSTS_ENABLED = [JStr ''*'']"

text \<open>
  \<^verbatim>\<open>!Array.isArray(this.config.cors) || (this.config.cors.length === 1 &&
  this.config.cors[0] === CORS_ALL_HOSTS_ENABLED[0])\<close>
\<close>

definition cors_all_hosts :: "config \<Rightarrow> bool" where
  "cors_all_hosts c =
     (case cors c of
        JArr xs ps \<Rightarrow> length xs = 1 \<and> hd xs = hd CORS_ALL_HOSTS_ENABLED
      | _ \<Rightarrow> True)"

text \<open>
  The \<^verbatim>\<open>origin\<close> callback of the allow-list: \<^verbatim>\<open>indexOf\<close> compares the request's
  \<^verbatim>\<open>Origin\<close> header (a string, or \<^verbatim>\<open>undefined\<close> when the request has none) with the
  entries by strict equality.
\<close>

definition cors_origin :: "config \<Rightarrow> request \<Rightarrow> unit result" where
  "cors_origin c req =
     (case cors c of
        JArr xs ps \<Rightarrow>
          if header req ''origin'' \<in> set xs then Inr ()
          else Inl (js_Error (''Origin ''
                 @ (case headers req ''origin'' of None \<Rightarrow> ''undefined'' | Some s \<Rightarrow> s)
                 @ '' not allowed by CORS policy''))
      | _ \<Rightarrow> Inr ())"

definition cors_middleware :: "config \<Rightarrow> request \<Rightarrow> unit result" where
  "cors_middleware c req = (if cors_all_hosts c then Inr () else cors_origin c req)"

text \<open>
  \<^verbatim>\<open>res.setHeader('X-RemLog-Client', req.ip);
  res.setHeader('X-RemLog-Server-Version', `${pkg.version}`); next();\<close>
\<close>

definition default_headers :: "env \<Rightarrow> request \<Rightarrow> response \<Rightarrow> response" where
  "default_headers E req res =
     setHeader ''X-RemLog-Server-Version'' (pkg_version E)
       (setHeader ''X-RemLog-Client'' (ip req) res)"

text \<open>
  The routes of \<^verbatim>\<open>attachRouter\<close>, in the order of the source. A file below
  \<^verbatim>\<open>/.resources\<close> is served by \<^verbatim>\<open>express.static\<close>; a request that matches no route
  gets the 404 response of Express.
\<close>

definition router ::
  "server \<Rightarrow> env \<Rightarrow> request \<Rightarrow> jsval \<Rightarrow> response \<Rightarrow> world \<Rightarrow> outcome \<times> world" where
  "router S E req payload res w =
     (case route req of
        Static p \<Rightarrow> (Responded (res\<lparr>content := File (''views/resources/'' @ p)\<rparr>), w)
      | Index \<Rightarrow> (get_index E res w, w)
      | Info \<Rightarrow> (get_info E res, w)
      | LogsJson \<Rightarrow> (get_logs_json E res w, w)
      | LogById rid \<Rightarrow> (get_log_by_id E res rid w, w)
      | TracerJpg \<Rightarrow> get_tracer S E req res w
      | PostTrace \<Rightarrow> post_trace S E req payload res w
      | NoMatch \<Rightarrow> (Responded ((status 404 res)\<lparr>content := Text ''Not Found''\<rparr>), w))"

text \<open>One request through the whole chain, starting from a fresh response object.\<close>

definition handle :: "server \<Rightarrow> env \<Rightarrow> request \<Rightarrow> world \<Rightarrow> outcome \<times> world" where
  "handle S E req w =
     (case cors_middleware (srv_config S) req of
        Inl e \<Rightarrow> (error_handler E fresh_response e, w)
      | Inr u \<Rightarrow>
          if req_method req = ''OPTIONS'' then (Responded (status 204 fresh_response), w)
          else
            (case body req of
               Inl e \<Rightarrow> (error_handler E fresh_response e, w)
             | Inr payload \<Rightarrow>
                 router S E req payload (default_headers E req fresh_response) w))"

section \<open>The constructor\<close>

text \<open>
  Every name the module binds: the \<^verbatim>\<open>const\<close> declarations (with the three names
  destructured from \<^verbatim>\<open>@namics/remlog-transports\<close>), the class, and the parameters of
  the CommonJS module wrapper. Inside the constructor \<^verbatim>\<open>config\<close> is bound as well.
\<close>

definition module_bindings :: "string list" where
  "module_bindings =
     [''fs'', ''path'', ''http'', ''https'', ''cors'', ''express'', ''compression'',
      ''bodyParser'', ''helmet'', ''Logger'', ''Scheme'', ''ConsoleTransport'',
      ''getTransport'', ''GENERIC_TRANSPORT_LOGFILE'', ''pkg'', ''CORS_ALL_HOSTS_ENABLED'',
      ''defaultConfig'', ''logger'', ''Server'',
      ''exports'', ''require'', ''module'', ''__filename'', ''__dirname'']"

text \<open>
  What the constructor takes from outside the module: the functions of the global object
  by name, \<^verbatim>\<open>ConsoleTransport.id\<close>, and \<^verbatim>\<open>getTransport\<close> followed by \<^verbatim>\<open>new\<close>
  (\<open>None\<close> when the identifier selects no class).
\<close>

record ambient =
  globals :: "string \<rightharpoonup> (jsval \<Rightarrow> jsval result)"
  ConsoleTransport_id :: jsval
  getTransport :: "jsval \<Rightarrow> transport_obj option"

definition defaultConfig :: "ambient \<Rightarrow> config" where
  "defaultConfig A =
     \<lparr>port = JNum 8189, transport = ConsoleTransport_id A,
      cors = JArr CORS_ALL_HOSTS_ENABLED [], ssl = JNull\<rparr>"

text \<open>
  A call \<^verbatim>\<open>f(x)\<close> of an identifier: a name bound by neither the function nor the module
  is looked up in the global object, and a \<^verbatim>\<open>ReferenceError\<close> is thrown when it is not
  there either.
\<close>

definition call_free :: "ambient \<Rightarrow> string \<Rightarrow> jsval \<Rightarrow> jsval result" where
  "call_free A name x =
     (case globals A name of
        None \<Rightarrow> Inl (js_Error (name @ '' is not defined''))
      | Some f \<Rightarrow> f x)"

text \<open>
  \<^verbatim>\<open>constructor(config = defaultConfig)\<close>: the argument is \<open>None\<close> when the caller
  passes none. The two \<^verbatim>\<open>logger.info\<close> lines evaluate their template strings first:
  the call of \<^verbatim>\<open>getTransportNameFromId\<close>, then \<^verbatim>\<open>this.config.cors.join(', ')\<close>.
\<close>

definition Server_constructor :: "ambient \<Rightarrow> config option \<Rightarrow> server result" where
  "Server_constructor A arg =
     (let config = (case arg of None \<Rightarrow> defaultConfig A | Some c \<Rightarrow> c);
          tid = js_or (transport config) (transport (defaultConfig A))
      in case call_free A ''getTransportNameFromId'' tid of
           Inl e \<Rightarrow> Inl e
         | Inr name \<Rightarrow>
             (case cors config of
                JArr xs ps \<Rightarrow>
                  (case getTransport A tid of
                     None \<Rightarrow> Inl (js_Error ''SelectedTransport is not a constructor'')
                   | Some T \<Rightarrow>
                       Inr \<lparr>srv_config = config, transportId = tid, srv_transport = T\<rparr>)
              | _ \<Rightarrow> Inl (js_Error ''this.config.cors.join is not a function'')))"

section \<open>The transports and the trace store\<close>

text \<open>
  Modelled from the spec: the package \<^verbatim>\<open>@namics/remlog-transports\<close> (the transports and
  the store behind \<^verbatim>\<open>saveTraceToLock\<close>) is not among the sources. Its store is an
  insertion-ordered mapping from \<^verbatim>\<open>id\<close> to the most recently written record;
  \<^verbatim>\<open>save(record)\<close> inserts the entry for \<^verbatim>\<open>record.id\<close> or overwrites it in place.
\<close>

fun save :: "jsval \<Rightarrow> jsval list \<Rightarrow> jsval list" where
  "save r [] = [r]"
| "save r (x # xs) = (if record_id x = record_id r then r # xs else x # save r xs)"

text \<open>
  Modelled from the spec: the backing file of the store (written by
  \<^verbatim>\<open>@namics/remlog-transports\<close>) is created lazily on the first write and holds the
  array of entries afterwards. The spec does not say what a write does to a file that is
  not such an array; it is left as it is.
\<close>

definition store_write :: "jsval \<Rightarrow> logfile \<Rightarrow> logfile" where
  "store_write r f =
     (case f of
        ReadError err \<Rightarrow> Parsed (JArr [r] [])
      | Parsed (JArr xs ps) \<Rightarrow> Parsed (JArr (save r xs) ps)
      | other \<Rightarrow> other)"

text \<open>
  Modelled from the spec: a transport of \<^verbatim>\<open>@namics/remlog-transports\<close>. The write path
  is decoupled from the response path: \<^verbatim>\<open>relay\<close> (the method \<^verbatim>\<open>trace\<close>) echoes the
  record and runs the callback it was given; \<^verbatim>\<open>persist\<close> (the method
  \<^verbatim>\<open>saveTraceToLock\<close>) hands the record to the single writer and returns.
\<close>

definition spec_transport :: transport_obj where
  "spec_transport =
     \<lparr>transport_trace = (\<lambda>r onDone w. onDone w),
      saveTraceToLock = (\<lambda>r w. (Inr (), w\<lparr>pending := pending w @ [r]\<rparr>))\<rparr>"

text \<open>
  Modelled from the spec: the single writer of the store (part of
  \<^verbatim>\<open>@namics/remlog-transports\<close>) drains the accepted writes in the order of acceptance;
  a later write for the same \<^verbatim>\<open>id\<close> supersedes an earlier one.
\<close>

definition writer_lands :: "world \<Rightarrow> world" where
  "writer_lands w =
     w\<lparr>logfile := foldl (\<lambda>f r. store_write r f) (logfile w) (pending w), pending := []\<rparr>"

text \<open>
  Modelled from the spec: the invariant of the store of \<^verbatim>\<open>@namics/remlog-transports\<close>.
  Its entries are records and its keys are unique; a file that does not exist yet is a
  store with no entry.
\<close>

definition store_invariant :: "logfile \<Rightarrow> bool" where
  "store_invariant f =
     (case f of
        ReadError err \<Rightarrow> True
      | Parsed (JArr xs ps) \<Rightarrow> list_all readable xs \<and> distinct (map record_id xs)
      | other \<Rightarrow> False)"

section \<open>Sample inputs\<close>

text \<open>
  Concrete collaborators, servers, requests and worlds, on which the theorems below are
  evaluated. The sample schema accepts a payload whose \<^verbatim>\<open>id\<close> is a string and returns
  it unchanged.
\<close>

definition sample_scheme :: "jsval \<Rightarrow> jsval result" where
  "sample_scheme p =
     (case get_prop p ''id'' of
        Inr (JStr s) \<Rightarrow> Inr p
      | _ \<Rightarrow> Inl (js_Error ''id must be a string''))"

definition sample_env :: env where
  "sample_env =
     \<lparr>Scheme_get = sample_scheme, pkg_name = ''@namics/remlog-server'',
      pkg_version = ''0.1.0'', now = ''2018-05-01T12:00:00.000Z'',
      percent_decode = (\<lambda>s. Inl (js_Error ''URI malformed'')),
      JSON_engine = (\<lambda>s. Inr (JObj [(''id'', JStr ''abc123'')]))\<rparr>"

definition sample_config :: "jsval \<Rightarrow> config" where
  "sample_config allowed =
     \<lparr>port = JNum 8189, transport = JStr ''console'', cors = allowed, ssl = JNull\<rparr>"

definition sample_server :: "jsval \<Rightarrow> server" where
  "sample_server allowed =
     \<lparr>srv_config = sample_config allowed, transportId = JStr ''console'',
      srv_transport = spec_transport\<rparr>"

definition all_hosts :: jsval where
  "all_hosts = JArr [JStr ''*''] []"

definition sample_request :: "route \<Rightarrow> jsval \<Rightarrow> request" where
  "sample_request rt b =
     \<lparr>req_method = (if rt = PostTrace then ''POST'' else ''GET''), route = rt,
      headers = [''host'' \<mapsto> ''logs.example''],
      remoteAddress = JStr ''10.0.0.7'', ip = ''10.0.0.7'', body = Inr b,
      query = [(''{\"id\":\"abc123\"}'', JStr [])]\<rparr>"



definition no_file :: world where
  "no_file = \<lparr>logfile = ReadError ''ENOENT: no such file or directory'', pending = []\<rparr>"

definition sample_ambient :: ambient where
  "sample_ambient =
     \<lparr>globals = Map.empty, ConsoleTransport_id = JStr ''console'',
      getTransport = (\<lambda>i. if i = JStr ''console'' then Some spec_transport else None)\<rparr>"

definition sample_payload :: "string \<Rightarrow> jsval" where
  "sample_payload i = JObj [(''id'', JStr i), (''host'', JStr ''client.example'')]"

definition sample_record :: "string \<Rightarrow> jsval" where
  "sample_record i =
     JObj [(''id'', JStr i), (''host'', JStr ''10.0.0.7''),
           (''timestamp'', JStr ''2018-05-01T12:00:00.000Z'')]"

definition bad_payload :: jsval where
  "bad_payload = JObj [(''id'', JNum 7)]"

definition bad_record :: jsval where
  "bad_record =
     JObj [(''id'', JNum 7), (''host'', JStr ''10.0.0.7''),
           (''timestamp'', JStr ''2018-05-01T12:00:00.000Z'')]"

section \<open>Properties of the building blocks\<close>

lemma errorMessage_js_Error:
  "errorMessage (js_Error msg) = Inr (if msg = [] then js_Error msg else JStr msg)"
  by (simp add: errorMessage_def js_Error_def js_or_def)

lemma error_handler_js_Error:
  "error_handler E res (js_Error msg) =
     Responded (json (error_envelope E (if msg = [] then js_Error msg else JStr msg))
       (status 500 res))"
  by (simp add: error_handler_def errorMessage_js_Error)

lemma handle_routed:
  "cors_middleware (srv_config S) req = Inr u \<Longrightarrow> req_method req \<noteq> ''OPTIONS'' \<Longrightarrow>
   body req = Inr payload \<Longrightarrow>
   handle S E req w = router S E req payload (default_headers E req fresh_response) w"
  by (simp add: handle_def)

subsection \<open>The query of the tracer\<close>

lemma decode_query: "decodeURIComponent E (toString_object q) = Inr ''[object Object]''"
  by (simp add: decodeURIComponent_def toString_object_def)

lemma parse_query: "JSON_parse E ''[object Object]'' = Inl SyntaxError"
  by (simp add: JSON_parse_def no_json_start_def json_ws_def starts_value_def)

lemma get_tracer_throws: "get_tracer S E req res w = (error_handler E res SyntaxError, w)"
  by (simp add: get_tracer_def decode_query parse_query)



subsection \<open>Where \<^verbatim>\<open>trace\<close> calls its continuation\<close>

lemma trace_rejected:
  assumes "stamp E req payload = Inr p" and "Scheme_get E p = Inl e"
    and "get_prop e ''message'' = Inr m"
  shows "trace S E payload req next w = (next (failure e), w)"
  using assms by (simp add: trace_def trace_try_def)

lemma trace_accepted:
  assumes "stamp E req payload = Inr p" and "Scheme_get E p = Inr r"
    and "transport_trace (srv_transport S) r (saveTraceToLock (srv_transport S) r) w
           = (Inr u, w')"
    and "next r = Inr out"
  shows "trace S E payload req next w = (Inr out, w')"
  using assms by (simp add: trace_def trace_try_def)

lemma trace_transport_throws:
  assumes "stamp E req payload = Inr p" and "Scheme_get E p = Inr r"
    and "transport_trace (srv_transport S) r (saveTraceToLock (srv_transport S) r) w
           = (Inl e, w')"
    and "get_prop e ''message'' = Inr m"
  shows "trace S E payload req next w = (next (failure e), w')"
  using assms by (simp add: trace_def trace_try_def)

lemma trace_calls_next:
  "trace S E payload req next w = (Inr out, w') \<Longrightarrow> \<exists>x. next x = Inr out"
  by (auto simp: trace_def trace_try_def split: sum.splits prod.splits)

lemma post_trace_next_failure:
  "post_trace_next E res (failure e) =
     Inr (Responded (json (accepted E JNull) (status 200 res)))"
  by (simp add: post_trace_next_def failure_def)

subsection \<open>The log reader's loop\<close>

lemma readable_get_prop: "readable l \<Longrightarrow> get_prop l ''id'' = Inr (record_id l)"
  by (cases l) (simp_all add: readable_def record_id_def)

lemma get_prop_readable: "get_prop l k = Inr v \<Longrightarrow> readable l"
  by (cases l) (simp_all add: readable_def)

lemma get_prop_record_id: "get_prop l ''id'' = Inr v \<Longrightarrow> record_id l = v"
  by (simp add: record_id_def)

lemma select_log_last:
  "list_all readable logs \<Longrightarrow>
   select_log rid logs sel = Inr (last (sel # filter (\<lambda>l. record_id l = JStr rid) logs))"
  by (induction logs arbitrary: sel) (simp_all add: readable_get_prop)

subsection \<open>The store keeps its invariant\<close>

lemma save_readable:
  "list_all readable xs \<Longrightarrow> readable r \<Longrightarrow> list_all readable (save r xs)"
  by (induction xs) simp_all

lemma save_ids:
  "map record_id (save r xs) =
     (if record_id r \<in> set (map record_id xs) then map record_id xs
      else map record_id xs @ [record_id r])"
  by (induction xs) auto

lemma save_distinct:
  "distinct (map record_id xs) \<Longrightarrow> distinct (map record_id (save r xs))"
  by (simp add: save_ids)

lemma filter_absent:
  "k \<notin> set (map record_id xs) \<Longrightarrow> filter (\<lambda>x. record_id x = k) xs = []"
  by (induction xs) auto

lemma save_single:
  "distinct (map record_id xs) \<Longrightarrow>
   filter (\<lambda>x. record_id x = record_id r) (save r xs) = [r]"
proof (induction xs)
  case Nil
  then show ?case by simp
next
  case (Cons x xs)
  show ?case
  proof (cases "record_id x = record_id r")
    case True
    with Cons.prems have "record_id r \<notin> set (map record_id xs)" by simp
    then have "filter (\<lambda>y. record_id y = record_id r) xs = []" by (rule filter_absent)
    with True show ?thesis by simp
  next
    case False
    with Cons show ?thesis by simp
  qed
qed

lemma store_write_invariant:
  assumes "store_invariant f" and "readable r"
  shows "\<exists>ys qs. store_write r f = Parsed (JArr ys qs) \<and> list_all readable ys
           \<and> distinct (map record_id ys)
           \<and> filter (\<lambda>x. record_id x = record_id r) ys = [r]"
proof (cases f)
  case (ReadError err)
  with assms show ?thesis by (simp add: store_write_def)
next
  case (NotJson e)
  with assms show ?thesis by (simp add: store_invariant_def)
next
  case (Parsed v)
  with assms obtain xs ps where v: "v = JArr xs ps"
    and xs: "list_all readable xs" "distinct (map record_id xs)"
    by (cases v) (simp_all add: store_invariant_def)
  from Parsed v have "store_write r f = Parsed (JArr (save r xs) ps)"
    by (simp add: store_write_def)
  with xs assms(2) show ?thesis
    by (simp add: save_readable save_distinct save_single)
qed

lemma store_write_keeps_invariant:
  "store_invariant f \<Longrightarrow> readable r \<Longrightarrow> store_invariant (store_write r f)"
  using store_write_invariant [of f r] by (auto simp: store_invariant_def)

lemma foldl_store_write_invariant:
  "store_invariant f \<Longrightarrow> list_all readable rs \<Longrightarrow>
   store_invariant (foldl (\<lambda>f r. store_write r f) f rs)"
  by (induction rs arbitrary: f) (simp_all add: store_write_keeps_invariant)

lemma writer_lands_last:
  assumes "store_invariant (logfile w)" and "list_all readable (pending w)"
    and "readable r"
  shows "\<exists>ys qs. logfile (writer_lands (w\<lparr>pending := pending w @ [r]\<rparr>))
             = Parsed (JArr ys qs)
           \<and> list_all readable ys \<and> distinct (map record_id ys)
           \<and> filter (\<lambda>x. record_id x = record_id r) ys = [r]"
proof -
  have "store_invariant (foldl (\<lambda>f r. store_write r f) (logfile w) (pending w))"
    using assms(1,2) by (rule foldl_store_write_invariant)
  from store_write_invariant [OF this assms(3)] show ?thesis
    by (simp add: writer_lands_def)
qed

subsection \<open>What the routes leave of the response object\<close>

lemma json_inject: "json a res = json b res' \<Longrightarrow> a = b"
  by (drule arg_cong [where f = content]) (simp add: json_def)

lemma error_handler_headers:
  "error_handler E res e = Responded r \<Longrightarrow> res_headers r = res_headers res"
  by (auto simp: error_handler_def json_def status_def split: sum.splits)

lemma get_index_headers:
  "get_index E res w = Responded r \<Longrightarrow> res_headers r = res_headers res"
  by (auto simp: get_index_def render_def split: logfile.splits)

lemma get_logs_json_headers:
  "get_logs_json E res w = Responded r \<Longrightarrow> res_headers r = res_headers res"
  by (auto simp: get_logs_json_def json_def split: logfile.splits
      dest: error_handler_headers)

lemma get_log_by_id_headers:
  "get_log_by_id E res rid w = Responded r \<Longrightarrow> res_headers r = res_headers res"
  by (auto simp: get_log_by_id_def json_def
      split: logfile.splits jsval.splits sum.splits if_splits dest: error_handler_headers)

lemma post_trace_next_headers:
  "post_trace_next E res x = Inr (Responded r) \<Longrightarrow> res_headers r = res_headers res"
  by (auto simp: post_trace_next_def Let_def json_def status_def split: sum.splits)

lemma tracer_next_headers:
  "tracer_next res x = Inr (Responded r) \<Longrightarrow> k \<noteq> ''Content-Type'' \<Longrightarrow>
   map_of (res_headers r) k = map_of (res_headers res) k"
  by (auto simp: tracer_next_def status_def setHeader_def AList.update_conv')

lemma post_trace_headers:
  assumes "post_trace S E req payload res w = (Responded r, w')"
  shows "res_headers r = res_headers res"
proof (cases "trace S E payload req (post_trace_next E res) w")
  case (Pair a w'')
  show ?thesis
  proof (cases a)
    case (Inl e)
    with Pair assms show ?thesis
      by (auto simp: post_trace_def dest: error_handler_headers)
  next
    case (Inr out)
    with Pair trace_calls_next obtain x where "post_trace_next E res x = Inr out"
      by blast
    moreover from Inr Pair assms have "out = Responded r"
      by (simp add: post_trace_def)
    ultimately show ?thesis by (simp add: post_trace_next_headers)
  qed
qed

lemma get_tracer_headers:
  assumes "get_tracer S E req res w = (Responded r, w')"
  shows "res_headers r = res_headers res"
  using assms by (auto simp: get_tracer_throws dest: error_handler_headers)

lemma router_headers:
  assumes "router S E req payload res w = (Responded r, w')" and "k \<noteq> ''Content-Type''"
  shows "map_of (res_headers r) k = map_of (res_headers res) k"
proof (cases "route req")
  case (Static x1)
  with assms show ?thesis by (auto simp: router_def)
next
  case Index
  with assms show ?thesis by (auto simp: router_def dest: get_index_headers)
next
  case Info
  with assms show ?thesis by (auto simp: router_def get_info_def)
next
  case LogsJson
  with assms show ?thesis by (auto simp: router_def dest: get_logs_json_headers)
next
  case (LogById x5)
  with assms show ?thesis by (auto simp: router_def dest: get_log_by_id_headers)
next
  case TracerJpg
  with assms show ?thesis by (auto simp: router_def dest: get_tracer_headers)
next
  case PostTrace
  with assms show ?thesis by (auto simp: router_def dest: post_trace_headers)
next
  case NoMatch
  with assms show ?thesis by (auto simp: router_def status_def)
qed

lemma default_headers_set:
  "map_of (res_headers (default_headers E req res)) ''X-RemLog-Client'' = Some (ip req)"
  "map_of (res_headers (default_headers E req res)) ''X-RemLog-Server-Version''
     = Some (pkg_version E)"
  by (simp_all add: default_headers_def setHeader_def AList.update_conv')

subsection \<open>An accepted trace\<close>

lemma get_prop_truthy: "get_prop r k = Inr v \<Longrightarrow> v \<noteq> JUndefined \<Longrightarrow> truthy r"
  by (cases r) simp_all

lemma post_trace_next_record:
  "get_prop r ''id'' = Inr i \<Longrightarrow>
   post_trace_next E res r = Inr (Responded (json (accepted E i) (status 200 res)))"
  by (cases r) (simp_all add: post_trace_next_def)

lemma spec_transport_enqueues:
  "transport_trace spec_transport r (saveTraceToLock spec_transport r) w
     = (Inr (), w\<lparr>pending := pending w @ [r]\<rparr>)"
  by (simp add: spec_transport_def)

lemma post_trace_spec:
  assumes "srv_transport S = spec_transport"
    and "stamp E req payload = Inr p" and "Scheme_get E p = Inr r"
    and "get_prop r ''id'' = Inr i"
  shows "post_trace S E req payload res w =
           (Responded (json (accepted E i) (status 200 res)),
            w\<lparr>pending := pending w @ [r]\<rparr>)"
proof -
  have "trace S E payload req (post_trace_next E res) w =
          (Inr (Responded (json (accepted E i) (status 200 res))),
           w\<lparr>pending := pending w @ [r]\<rparr>)"
    using assms(2,3)
  proof (rule trace_accepted)
    show "transport_trace (srv_transport S) r (saveTraceToLock (srv_transport S) r) w
            = (Inr (), w\<lparr>pending := pending w @ [r]\<rparr>)"
      by (simp add: assms(1) spec_transport_enqueues)
    show "post_trace_next E res r = Inr (Responded (json (accepted E i) (status 200 res)))"
      using assms(4) by (rule post_trace_next_record)
  qed
  then show ?thesis by (simp add: post_trace_def)
qed

subsection \<open>The sample inputs evaluated\<close>

lemmas sample_defs = sample_request_def sample_env_def sample_server_def sample_config_def
  all_hosts_def no_file_def sample_payload_def sample_record_def bad_payload_def
  bad_record_def sample_scheme_def

lemma stamp_sample:
  "stamp sample_env (sample_request rt b) (sample_payload i) = Inr (sample_record i)"
  by (simp add: stamp_def origin_def header_def js_or_def sample_defs)

lemma stamp_bad:
  "stamp sample_env (sample_request rt b) bad_payload = Inr bad_record"
  by (simp add: stamp_def origin_def header_def js_or_def sample_defs)

lemma scheme_sample: "Scheme_get sample_env (sample_record i) = Inr (sample_record i)"
  by (simp add: sample_defs)

lemma scheme_bad: "Scheme_get sample_env bad_record = Inl (js_Error ''id must be a string'')"
  by (simp add: sample_defs)

lemma id_sample: "get_prop (sample_record i) ''id'' = Inr (JStr i)"
  by (simp add: sample_defs)

lemma message_bad:
  "get_prop (js_Error ''id must be a string'') ''message''
     = Inr (JStr ''id must be a string'')"
  by (simp add: js_Error_def)

lemma route_sample: "route (sample_request rt b) = rt"
  by (simp add: sample_request_def)

lemma transport_sample: "srv_transport (sample_server allowed) = spec_transport"
  by (simp add: sample_server_def)

lemma cors_sample: "cors_middleware (srv_config (sample_server all_hosts)) req = Inr ()"
  by (simp add: cors_middleware_def cors_all_hosts_def CORS_ALL_HOSTS_ENABLED_def
      sample_server_def sample_config_def all_hosts_def)

section \<open>Ingestion\<close>

text \<open>
  C1. A \<^verbatim>\<open>POST /trace\<close> whose payload the schema rejects should be answered with
  \<^verbatim>\<open>httpStatus: 500\<close> and a non-null \<^verbatim>\<open>error\<close>, the fault being caught inside the
  normalization step and turned into the failure value. The code does catch the fault
  and builds \<^verbatim>\<open>{id: null, error: e}\<close>, but it hands this value to the continuation of
  the route, which ignores \<^verbatim>\<open>payload.error\<close>: the response has status 200,
  \<^verbatim>\<open>error: null\<close>, \<^verbatim>\<open>id: null\<close> and \<^verbatim>\<open>httpStatus: 200\<close>, and the error handler is
  not reached.
\<close>

theorem post_trace_rejected_payload:
  assumes "route req = PostTrace" and "stamp E req payload = Inr p"
    and "Scheme_get E p = Inl e" and "get_prop e ''message'' = Inr m"
  shows "router S E req payload res w =
           (Responded (json (accepted E JNull) (status 200 res)), w)"
  using assms
  by (simp add: router_def post_trace_def trace_rejected post_trace_next_failure)

theorem post_trace_rejected_payload_witness:
  "route (sample_request PostTrace bad_payload) = PostTrace
   \<and> stamp sample_env (sample_request PostTrace bad_payload) bad_payload = Inr bad_record
   \<and> Scheme_get sample_env bad_record = Inl (js_Error ''id must be a string'')
   \<and> get_prop (js_Error ''id must be a string'') ''message''
       = Inr (JStr ''id must be a string'')
   \<and> router (sample_server all_hosts) sample_env (sample_request PostTrace bad_payload)
         bad_payload fresh_response no_file
       = (Responded
            \<lparr>statusCode = 200, res_headers = [],
             content = Json (JObj [(''timestamp'', JStr ''2018-05-01T12:00:00.000Z''),
                                   (''error'', JNull), (''id'', JNull),
                                   (''httpStatus'', JNum 200)])\<rparr>, no_file)"
proof -
  from post_trace_rejected_payload [where S = "sample_server all_hosts"
      and res = fresh_response and w = no_file,
      OF route_sample stamp_bad scheme_bad message_bad]
  show ?thesis
    using route_sample [of PostTrace bad_payload] stamp_bad [of PostTrace bad_payload]
      scheme_bad message_bad
    by (simp add: accepted_def json_def status_def fresh_response_def sample_env_def)
qed




text \<open>
  C8. \<^verbatim>\<open>GET /tracer.jpg\<close> should send the pixel when the query string decodes to a JSON
  object and normalization succeeds. The handler does not decode the query string: it
  gives \<^verbatim>\<open>req.query\<close>, the object Express has parsed, to \<^verbatim>\<open>decodeURIComponent\<close>, which
  converts it to the text \<^verbatim>\<open>[object Object]\<close>; \<^verbatim>\<open>JSON.parse\<close> rejects that text.
  Every request of the route is answered by the error handler with the 500 envelope,
  and \<^verbatim>\<open>trace\<close> is not reached.
\<close>

theorem tracer_query_never_decodes:
  assumes "route req = TracerJpg"
  shows "router S E req payload res w =
           (Responded (json (error_envelope E (JStr ''Unexpected token in JSON''))
              (status 500 res)), w)"
  using assms
  by (simp add: router_def get_tracer_throws SyntaxError_def error_handler_js_Error)

text \<open>
  The sample request is \<^verbatim>\<open>GET /tracer.jpg?%7B%22id%22%3A%22abc123%22%7D\<close>, a well-formed
  beacon: Express parses the query string to an object with the one key
  \<^verbatim>\<open>{"id":"abc123"}\<close>.
\<close>

theorem tracer_query_never_decodes_witness:
  "route (sample_request TracerJpg (JObj [])) = TracerJpg
   \<and> query (sample_request TracerJpg (JObj [])) = [(''{\"id\":\"abc123\"}'', JStr [])]
   \<and> router (sample_server all_hosts) sample_env (sample_request TracerJpg (JObj []))
         (JObj []) fresh_response no_file
       = (Responded
            \<lparr>statusCode = 500, res_headers = [],
             content = Json (JObj [(''timestamp'', JStr ''2018-05-01T12:00:00.000Z''),
                                   (''error'', JStr ''Unexpected token in JSON''),
                                   (''httpStatus'', JNum 500)])\<rparr>, no_file)"
proof -
  from tracer_query_never_decodes [where S = "sample_server all_hosts" and E = sample_env
      and payload = "JObj []" and res = fresh_response and w = no_file, OF route_sample]
  show ?thesis
    by (simp add: sample_request_def error_envelope_def json_def status_def
        fresh_response_def sample_env_def)
qed




section \<open>Reading the store\<close>

text \<open>
  C3. When the backing file is absent or unreadable, \<^verbatim>\<open>GET /logs.json\<close> forwards the
  read error to the error handler (\<^verbatim>\<open>if (err) { return next(err); }\<close>) and the response
  is the 500 envelope with the error's message; the route that degrades to an empty list
  is \<^verbatim>\<open>GET /\<close>, which renders the index with no logs.
\<close>

theorem unreadable_store_listing:
  assumes "logfile w = ReadError msg"
  shows "(route req = LogsJson \<longrightarrow>
           router S E req payload res w =
             (Responded (json (error_envelope E (if msg = [] then js_Error msg else JStr msg))
                (status 500 res)), w))
       \<and> (route req = Index \<longrightarrow>
           router S E req payload res w =
             (Responded (render ''index'' (JArr [] []) res), w))"
  using assms
  by (simp add: router_def get_logs_json_def get_index_def error_handler_js_Error)

theorem unreadable_store_listing_witness:
  "logfile no_file = ReadError ''ENOENT: no such file or directory''
   \<and> router (sample_server all_hosts) sample_env (sample_request LogsJson (JObj []))
         (JObj []) fresh_response no_file
       = (Responded
            \<lparr>statusCode = 500, res_headers = [],
             content = Json (JObj [(''timestamp'', JStr ''2018-05-01T12:00:00.000Z''),
                                   (''error'', JStr ''ENOENT: no such file or directory''),
                                   (''httpStatus'', JNum 500)])\<rparr>, no_file)
   \<and> router (sample_server all_hosts) sample_env (sample_request Index (JObj []))
         (JObj []) fresh_response no_file
       = (Responded \<lparr>statusCode = 200, res_headers = [],
                     content = View ''index'' (JArr [] [])\<rparr>, no_file)"
proof -
  have h: "logfile no_file = ReadError ''ENOENT: no such file or directory''"
    by (simp add: no_file_def)
  from unreadable_store_listing [where req = "sample_request LogsJson (JObj [])"
      and S = "sample_server all_hosts" and E = sample_env and payload = "JObj []"
      and res = fresh_response, OF h]
    unreadable_store_listing [where req = "sample_request Index (JObj [])"
      and S = "sample_server all_hosts" and E = sample_env and payload = "JObj []"
      and res = fresh_response, OF h]
  show ?thesis using h
    by (simp add: route_sample error_envelope_def json_def status_def render_def
        fresh_response_def sample_env_def)
qed

text \<open>
  Before any trace has been written the file does not exist; the whole chain answers
  \<^verbatim>\<open>GET /logs.json\<close> with status 500 and the error envelope, not with an empty array.
\<close>

theorem logs_json_missing_file_counterexample:
  "handle (sample_server all_hosts) sample_env (sample_request LogsJson (JObj [])) no_file
     = (Responded
          \<lparr>statusCode = 500,
           res_headers = [(''X-RemLog-Client'', ''10.0.0.7''),
                          (''X-RemLog-Server-Version'', ''0.1.0'')],
           content = Json (JObj [(''timestamp'', JStr ''2018-05-01T12:00:00.000Z''),
                                 (''error'', JStr ''ENOENT: no such file or directory''),
                                 (''httpStatus'', JNum 500)])\<rparr>, no_file)"
  by (simp add: handle_def cors_sample sample_request_def router_def get_logs_json_def
      no_file_def error_handler_js_Error error_envelope_def json_def status_def
      default_headers_def setHeader_def fresh_response_def sample_env_def)

text \<open>
  C6. For an identifier that no entry of the store carries, \<^verbatim>\<open>GET /logs/:id.json\<close>
  answers with status 500 and the envelope whose \<^verbatim>\<open>error\<close> is
  \<^verbatim>\<open>Logfile with ID <id> was not found\<close>, never with 200. An unreadable file is
  answered with the read error's own message instead, so the two conditions give
  different responses (whenever the read error's message is not that very sentence);
  both use status 500.
\<close>

theorem log_by_id_not_found:
  assumes "route req = LogById rid" and "logfile w = Parsed (JArr logs ps)"
    and "list_all readable logs" and "JStr rid \<notin> set (map record_id logs)"
  shows "router S E req payload res w =
           (Responded (json (error_envelope E
                               (JStr (''Logfile with ID '' @ rid @ '' was not found'')))
              (status 500 res)), w)
       \<and> (\<forall>msg. msg \<noteq> ''Logfile with ID '' @ rid @ '' was not found'' \<longrightarrow>
             router S E req payload res (w\<lparr>logfile := ReadError msg\<rparr>) =
               (Responded (json (error_envelope E
                                   (if msg = [] then js_Error msg else JStr msg))
                  (status 500 res)), w\<lparr>logfile := ReadError msg\<rparr>)
           \<and> fst (router S E req payload res (w\<lparr>logfile := ReadError msg\<rparr>))
               \<noteq> fst (router S E req payload res w))"
proof -
  from assms(4) have "filter (\<lambda>l. record_id l = JStr rid) logs = []"
    by (rule filter_absent)
  with assms(3) have sel: "select_log rid logs JUndefined = Inr JUndefined"
    by (simp add: select_log_last)
  have nf: "router S E req payload res w =
           (Responded (json (error_envelope E
                               (JStr (''Logfile with ID '' @ rid @ '' was not found'')))
              (status 500 res)), w)"
    using assms(1,2) sel
    by (simp add: router_def get_log_by_id_def not_found_def error_handler_js_Error)
  have un: "router S E req payload res (w\<lparr>logfile := ReadError msg\<rparr>) =
               (Responded (json (error_envelope E
                                   (if msg = [] then js_Error msg else JStr msg))
                  (status 500 res)), w\<lparr>logfile := ReadError msg\<rparr>)" for msg
    using assms(1)
    by (simp add: router_def get_log_by_id_def error_handler_js_Error)
  have "fst (router S E req payload res (w\<lparr>logfile := ReadError msg\<rparr>))
               \<noteq> fst (router S E req payload res w)"
    if "msg \<noteq> ''Logfile with ID '' @ rid @ '' was not found''" for msg
    using that unfolding nf un
    by (auto simp: error_envelope_def js_Error_def dest!: json_inject split: if_splits)
  with nf un show ?thesis by blast
qed

theorem log_by_id_not_found_witness:
  "route (sample_request (LogById ''doesnotexist'') (JObj [])) = LogById ''doesnotexist''
   \<and> list_all readable [sample_record ''abc123'']
   \<and> JStr ''doesnotexist'' \<notin> set (map record_id [sample_record ''abc123''])
   \<and> router (sample_server all_hosts) sample_env
         (sample_request (LogById ''doesnotexist'') (JObj [])) (JObj []) fresh_response
         \<lparr>logfile = Parsed (JArr [sample_record ''abc123''] []), pending = []\<rparr>
       = (Responded
            \<lparr>statusCode = 500, res_headers = [],
             content = Json (JObj [(''timestamp'', JStr ''2018-05-01T12:00:00.000Z''),
                          (''error'', JStr ''Logfile with ID doesnotexist was not found''),
                          (''httpStatus'', JNum 500)])\<rparr>,
          \<lparr>logfile = Parsed (JArr [sample_record ''abc123''] []), pending = []\<rparr>)
   \<and> router (sample_server all_hosts) sample_env
         (sample_request (LogById ''doesnotexist'') (JObj [])) (JObj []) fresh_response
         no_file
       = (Responded
            \<lparr>statusCode = 500, res_headers = [],
             content = Json (JObj [(''timestamp'', JStr ''2018-05-01T12:00:00.000Z''),
                          (''error'', JStr ''ENOENT: no such file or directory''),
                          (''httpStatus'', JNum 500)])\<rparr>, no_file)"
proof -
  let ?w = "\<lparr>logfile = Parsed (JArr [sample_record ''abc123''] []), pending = []\<rparr>"
  have h2: "logfile ?w = Parsed (JArr [sample_record ''abc123''] [])"
    by simp
  have h3: "list_all readable [sample_record ''abc123'']"
    by (simp add: readable_def sample_record_def)
  have h4: "JStr ''doesnotexist'' \<notin> set (map record_id [sample_record ''abc123''])"
    by (simp add: record_id_def sample_record_def)
  have m: "''ENOENT: no such file or directory''
             \<noteq> ''Logfile with ID '' @ ''doesnotexist'' @ '' was not found''"
    by simp
  have nf: "?w\<lparr>logfile := ReadError ''ENOENT: no such file or directory''\<rparr> = no_file"
    by (simp add: no_file_def)
  from log_by_id_not_found [where S = "sample_server all_hosts" and E = sample_env
      and payload = "JObj []" and res = fresh_response, OF route_sample h2 h3 h4]
  have "router (sample_server all_hosts) sample_env
          (sample_request (LogById ''doesnotexist'') (JObj [])) (JObj []) fresh_response ?w
        = (Responded (json (error_envelope sample_env
             (JStr (''Logfile with ID '' @ ''doesnotexist'' @ '' was not found'')))
             (status 500 fresh_response)), ?w)"
    and "router (sample_server all_hosts) sample_env
          (sample_request (LogById ''doesnotexist'') (JObj [])) (JObj []) fresh_response
          (?w\<lparr>logfile := ReadError ''ENOENT: no such file or directory''\<rparr>)
        = (Responded (json (error_envelope sample_env
             (JStr ''ENOENT: no such file or directory'')) (status 500 fresh_response)),
           ?w\<lparr>logfile := ReadError ''ENOENT: no such file or directory''\<rparr>)"
    using m by auto
  then show ?thesis
    using h3 h4 unfolding nf
    by (simp add: route_sample error_envelope_def json_def status_def fresh_response_def
        sample_env_def)
qed


section \<open>Writing, then reading\<close>

text \<open>
  C4. Round trip, on the transport and store modelled from the spec: a \<^verbatim>\<open>POST /trace\<close>
  whose payload normalizes to a record with \<^verbatim>\<open>id\<close> \<open>i\<close> (such as \<^verbatim>\<open>"abc123"\<close>) is
  acknowledged with that \<^verbatim>\<open>id\<close>, and once the writer has landed the accepted writes,
  \<^verbatim>\<open>GET /logs/i.json\<close> returns that record, whose \<^verbatim>\<open>id\<close> is \<open>i\<close>. The store the
  request starts from satisfies its invariant, and the writes still pending are records.
\<close>

theorem round_trip:
  assumes "srv_transport S = spec_transport"
    and "store_invariant (logfile w)" and "list_all readable (pending w)"
    and "route req = PostTrace" and "stamp E req payload = Inr p"
    and "Scheme_get E p = Inr r" and "get_prop r ''id'' = Inr (JStr i)"
    and "route req' = LogById i"
  shows "router S E req payload res w =
           (Responded (json (accepted E (JStr i)) (status 200 res)),
            w\<lparr>pending := pending w @ [r]\<rparr>)
       \<and> router S E req' payload' res' (writer_lands (w\<lparr>pending := pending w @ [r]\<rparr>)) =
           (Responded (json r res'), writer_lands (w\<lparr>pending := pending w @ [r]\<rparr>))
       \<and> get_prop r ''id'' = Inr (JStr i)"
proof -
  let ?w1 = "w\<lparr>pending := pending w @ [r]\<rparr>"
  have post: "router S E req payload res w =
           (Responded (json (accepted E (JStr i)) (status 200 res)), ?w1)"
    using assms(4) post_trace_spec [OF assms(1,5,6,7)] by (simp add: router_def)
  have rd: "readable r" using assms(7) by (rule get_prop_readable)
  have rid: "record_id r = JStr i" using assms(7) by (rule get_prop_record_id)
  from writer_lands_last [OF assms(2,3) rd] obtain ys qs where
    lf: "logfile (writer_lands ?w1) = Parsed (JArr ys qs)"
    and ys: "list_all readable ys" "filter (\<lambda>x. record_id x = record_id r) ys = [r]"
    by blast
  from ys have "select_log i ys JUndefined = Inr r"
    by (simp add: select_log_last rid)
  moreover have "truthy r" using assms(7) by (rule get_prop_truthy) simp
  ultimately have "get_log_by_id E res' i (writer_lands ?w1) = Responded (json r res')"
    using lf by (simp add: get_log_by_id_def)
  with assms(7,8) post show ?thesis by (simp add: router_def)
qed

theorem round_trip_witness:
  "srv_transport (sample_server all_hosts) = spec_transport
   \<and> store_invariant (logfile no_file) \<and> list_all readable (pending no_file)
   \<and> route (sample_request PostTrace (sample_payload ''abc123'')) = PostTrace
   \<and> stamp sample_env (sample_request PostTrace (sample_payload ''abc123''))
         (sample_payload ''abc123'') = Inr (sample_record ''abc123'')
   \<and> Scheme_get sample_env (sample_record ''abc123'') = Inr (sample_record ''abc123'')
   \<and> get_prop (sample_record ''abc123'') ''id'' = Inr (JStr ''abc123'')
   \<and> route (sample_request (LogById ''abc123'') (JObj [])) = LogById ''abc123''
   \<and> router (sample_server all_hosts) sample_env
         (sample_request PostTrace (sample_payload ''abc123'')) (sample_payload ''abc123'')
         fresh_response no_file
       = (Responded
            \<lparr>statusCode = 200, res_headers = [],
             content = Json (JObj [(''timestamp'', JStr ''2018-05-01T12:00:00.000Z''),
                                   (''error'', JNull), (''id'', JStr ''abc123''),
                                   (''httpStatus'', JNum 200)])\<rparr>,
          \<lparr>logfile = ReadError ''ENOENT: no such file or directory'',
           pending = [sample_record ''abc123'']\<rparr>)
   \<and> router (sample_server all_hosts) sample_env
         (sample_request (LogById ''abc123'') (JObj [])) (JObj []) fresh_response
         (writer_lands \<lparr>logfile = ReadError ''ENOENT: no such file or directory'',
                        pending = [sample_record ''abc123'']\<rparr>)
       = (Responded \<lparr>statusCode = 200, res_headers = [],
                     content = Json (sample_record ''abc123'')\<rparr>,
          \<lparr>logfile = Parsed (JArr [sample_record ''abc123''] []), pending = []\<rparr>)"
proof -
  have h2: "store_invariant (logfile no_file)"
    by (simp add: no_file_def store_invariant_def)
  have h3: "list_all readable (pending no_file)"
    by (simp add: no_file_def)
  from round_trip [where res = fresh_response and payload' = "JObj []"
      and res' = fresh_response,
      OF transport_sample h2 h3 route_sample stamp_sample scheme_sample id_sample
        route_sample]
  show ?thesis
    using h2 h3 stamp_sample [of PostTrace "sample_payload ''abc123''" "''abc123''"]
      scheme_sample [of "''abc123''"] id_sample [of "''abc123''"]
    by (simp add: route_sample transport_sample accepted_def json_def status_def
        fresh_response_def sample_env_def no_file_def writer_lands_def store_write_def)
qed

text \<open>
  C5. Overwrite, on the transport and store modelled from the spec: after two
  \<^verbatim>\<open>POST /trace\<close> requests in sequence whose records carry the same \<^verbatim>\<open>id\<close> \<open>i\<close>, and
  once the writer has landed the accepted writes, the array that \<^verbatim>\<open>GET /logs.json\<close>
  returns has exactly one entry with that \<^verbatim>\<open>id\<close>: the record of the second request.
\<close>

theorem same_id_single_entry:
  assumes "srv_transport S = spec_transport"
    and "store_invariant (logfile w)" and "list_all readable (pending w)"
    and "route reqA = PostTrace" and "stamp E reqA payloadA = Inr pA"
    and "Scheme_get E pA = Inr rA" and "get_prop rA ''id'' = Inr (JStr i)"
    and "route reqB = PostTrace" and "stamp E reqB payloadB = Inr pB"
    and "Scheme_get E pB = Inr rB" and "get_prop rB ''id'' = Inr (JStr i)"
    and "route reqC = LogsJson"
  shows "router S E reqA payloadA resA w =
           (Responded (json (accepted E (JStr i)) (status 200 resA)),
            w\<lparr>pending := pending w @ [rA]\<rparr>)
       \<and> router S E reqB payloadB resB (w\<lparr>pending := pending w @ [rA]\<rparr>) =
           (Responded (json (accepted E (JStr i)) (status 200 resB)),
            w\<lparr>pending := pending w @ [rA, rB]\<rparr>)
       \<and> (\<exists>ys qs.
             router S E reqC payloadC resC
               (writer_lands (w\<lparr>pending := pending w @ [rA, rB]\<rparr>)) =
               (Responded (json (JArr ys qs) resC),
                writer_lands (w\<lparr>pending := pending w @ [rA, rB]\<rparr>))
           \<and> filter (\<lambda>x. record_id x = JStr i) ys = [rB])"
proof -
  let ?w1 = "w\<lparr>pending := pending w @ [rA]\<rparr>"
  let ?w2 = "w\<lparr>pending := pending w @ [rA, rB]\<rparr>"
  have w2: "?w1\<lparr>pending := pending ?w1 @ [rB]\<rparr> = ?w2" by simp
  have post1: "router S E reqA payloadA resA w =
           (Responded (json (accepted E (JStr i)) (status 200 resA)), ?w1)"
    using assms(4) post_trace_spec [OF assms(1,5,6,7)] by (simp add: router_def)
  have post2: "router S E reqB payloadB resB ?w1 =
           (Responded (json (accepted E (JStr i)) (status 200 resB)), ?w2)"
    using assms(8) post_trace_spec [OF assms(1,9,10,11), of resB ?w1]
    by (simp add: router_def)
  have rd1: "readable rA" using assms(7) by (rule get_prop_readable)
  have rd2: "readable rB" using assms(11) by (rule get_prop_readable)
  have rid: "record_id rB = JStr i" using assms(11) by (rule get_prop_record_id)
  have inv1: "store_invariant (logfile ?w1)" using assms(2) by simp
  have pend1: "list_all readable (pending ?w1)" using assms(3) rd1 by simp
  from writer_lands_last [OF inv1 pend1 rd2] obtain ys qs where
    lf: "logfile (writer_lands ?w2) = Parsed (JArr ys qs)"
    and ys: "filter (\<lambda>x. record_id x = record_id rB) ys = [rB]"
    unfolding w2 by blast
  from lf assms(12) have "router S E reqC payloadC resC (writer_lands ?w2) =
             (Responded (json (JArr ys qs) resC), writer_lands ?w2)"
    by (simp add: router_def get_logs_json_def)
  with ys rid post1 post2 show ?thesis by auto
qed

text \<open>
  The second request differs from the first in its \<^verbatim>\<open>x-forwarded-for\<close> header, so the
  two records differ in \<^verbatim>\<open>host\<close>; the listing holds the second one only.
\<close>

theorem same_id_single_entry_witness:
  "srv_transport (sample_server all_hosts) = spec_transport
   \<and> store_invariant (logfile no_file) \<and> list_all readable (pending no_file)
   \<and> stamp sample_env (sample_request PostTrace (sample_payload ''abc123''))
         (sample_payload ''abc123'') = Inr (sample_record ''abc123'')
   \<and> Scheme_get sample_env (sample_record ''abc123'') = Inr (sample_record ''abc123'')
   \<and> stamp sample_env
         ((sample_request PostTrace (sample_payload ''abc123''))
            \<lparr>headers := [''x-forwarded-for'' \<mapsto> ''203.0.113.9'']\<rparr>)
         (sample_payload ''abc123'')
       = Inr (JObj [(''id'', JStr ''abc123''), (''host'', JStr ''203.0.113.9''),
                    (''timestamp'', JStr ''2018-05-01T12:00:00.000Z'')])
   \<and> Scheme_get sample_env
         (JObj [(''id'', JStr ''abc123''), (''host'', JStr ''203.0.113.9''),
                (''timestamp'', JStr ''2018-05-01T12:00:00.000Z'')])
       = Inr (JObj [(''id'', JStr ''abc123''), (''host'', JStr ''203.0.113.9''),
                    (''timestamp'', JStr ''2018-05-01T12:00:00.000Z'')])
   \<and> snd (router (sample_server all_hosts) sample_env
         ((sample_request PostTrace (sample_payload ''abc123''))
            \<lparr>headers := [''x-forwarded-for'' \<mapsto> ''203.0.113.9'']\<rparr>)
         (sample_payload ''abc123'') fresh_response
         (no_file\<lparr>pending := [sample_record ''abc123'']\<rparr>))
       = no_file\<lparr>pending :=
           [sample_record ''abc123'',
            JObj [(''id'', JStr ''abc123''), (''host'', JStr ''203.0.113.9''),
                  (''timestamp'', JStr ''2018-05-01T12:00:00.000Z'')]]\<rparr>
   \<and> router (sample_server all_hosts) sample_env (sample_request LogsJson (JObj []))
         (JObj []) fresh_response
         (writer_lands
            (no_file\<lparr>pending :=
               [sample_record ''abc123'',
                JObj [(''id'', JStr ''abc123''), (''host'', JStr ''203.0.113.9''),
                      (''timestamp'', JStr ''2018-05-01T12:00:00.000Z'')]]\<rparr>))
       = (Responded
            \<lparr>statusCode = 200, res_headers = [],
             content = Json (JArr
               [JObj [(''id'', JStr ''abc123''), (''host'', JStr ''203.0.113.9''),
                      (''timestamp'', JStr ''2018-05-01T12:00:00.000Z'')]] [])\<rparr>,
          \<lparr>logfile = Parsed (JArr
               [JObj [(''id'', JStr ''abc123''), (''host'', JStr ''203.0.113.9''),
                      (''timestamp'', JStr ''2018-05-01T12:00:00.000Z'')]] []),
           pending = []\<rparr>)"
proof -
  let ?reqB = "(sample_request PostTrace (sample_payload ''abc123''))
                 \<lparr>headers := [''x-forwarded-for'' \<mapsto> ''203.0.113.9'']\<rparr>"
  let ?rB = "JObj [(''id'', JStr ''abc123''), (''host'', JStr ''203.0.113.9''),
                   (''timestamp'', JStr ''2018-05-01T12:00:00.000Z'')]"
  have h2: "store_invariant (logfile no_file)"
    by (simp add: no_file_def store_invariant_def)
  have h3: "list_all readable (pending no_file)"
    by (simp add: no_file_def)
  have rt: "route ?reqB = PostTrace"
    by (simp add: sample_request_def)
  have st: "stamp sample_env ?reqB (sample_payload ''abc123'') = Inr ?rB"
    by (simp add: stamp_def origin_def header_def js_or_def sample_defs)
  have sg: "Scheme_get sample_env ?rB = Inr ?rB"
    by (simp add: sample_defs)
  have si: "get_prop ?rB ''id'' = Inr (JStr ''abc123'')"
    by simp
  have listing: "router (sample_server all_hosts) sample_env
         (sample_request LogsJson (JObj [])) (JObj []) fresh_response
         (writer_lands (no_file\<lparr>pending := [sample_record ''abc123'', ?rB]\<rparr>))
       = (Responded \<lparr>statusCode = 200, res_headers = [], content = Json (JArr [?rB] [])\<rparr>,
          \<lparr>logfile = Parsed (JArr [?rB] []), pending = []\<rparr>)"
    by (simp add: route_sample router_def get_logs_json_def json_def fresh_response_def
        no_file_def writer_lands_def store_write_def record_id_def sample_record_def)
  from same_id_single_entry [where resA = fresh_response and resB = fresh_response
      and payloadC = "JObj []" and resC = fresh_response,
      OF transport_sample h2 h3 route_sample stamp_sample scheme_sample id_sample
        rt st sg si route_sample]
  have "snd (router (sample_server all_hosts) sample_env ?reqB (sample_payload ''abc123'')
               fresh_response (no_file\<lparr>pending := [sample_record ''abc123'']\<rparr>))
          = no_file\<lparr>pending := [sample_record ''abc123'', ?rB]\<rparr>"
    by (simp add: no_file_def)
  with listing show ?thesis
    using h2 h3 st sg stamp_sample [of PostTrace "sample_payload ''abc123''" "''abc123''"]
      scheme_sample [of "''abc123''"]
    by (simp add: transport_sample)
qed

section \<open>The two headers\<close>

text \<open>
  The middleware that sets \<^verbatim>\<open>X-RemLog-Client\<close> and \<^verbatim>\<open>X-RemLog-Server-Version\<close> is
  reached by a request that is no preflight and that \<^verbatim>\<open>cors\<close> and the body parsers let
  through: every response to such a request carries both, on every route, for a success
  and for an error alike.
\<close>

lemma headers_on_routed_responses:
  assumes "cors_middleware (srv_config S) req = Inr u" and "req_method req \<noteq> ''OPTIONS''"
    and "body req = Inr payload" and "handle S E req w = (Responded r, w')"
  shows "map_of (res_headers r) ''X-RemLog-Client'' = Some (ip req)
       \<and> map_of (res_headers r) ''X-RemLog-Server-Version'' = Some (pkg_version E)"
proof -
  from assms have "router S E req payload (default_headers E req fresh_response) w
                     = (Responded r, w')"
    by (simp add: handle_routed)
  from router_headers [OF this] show ?thesis
    by (simp add: default_headers_set)
qed

text \<open>
  C7. Every response should carry the two headers, whatever the route and whether it
  is a success or an error. The middleware that sets them (commented
  \<^verbatim>\<open>settings default headers\<close>) is installed after \<^verbatim>\<open>cors\<close> and the body parsers, so the
  responses produced before it have neither: the error response to a request that
  \<^verbatim>\<open>cors\<close> or a body parser rejects, and the answer of \<^verbatim>\<open>cors\<close> to a preflight request.
\<close>

theorem responses_before_header_middleware:
  assumes "cors_middleware (srv_config S) req = Inl e \<or> req_method req = ''OPTIONS''
             \<or> body req = Inl e"
    and "handle S E req w = (Responded r, w')"
  shows "res_headers r = []"
proof (cases "cors_middleware (srv_config S) req")
  case (Inl a)
  with assms(2) have "error_handler E fresh_response a = Responded r"
    by (simp add: handle_def)
  then show ?thesis
    by (simp add: error_handler_headers fresh_response_def)
next
  case cors: (Inr u)
  show ?thesis
  proof (cases "req_method req = ''OPTIONS''")
    case True
    with cors assms(2) show ?thesis
      by (auto simp: handle_def status_def fresh_response_def)
  next
    case False
    with cors assms(1) have b: "body req = Inl e" by simp
    with cors False assms(2) have "error_handler E fresh_response e = Responded r"
      by (simp add: handle_def)
    then show ?thesis
      by (simp add: error_handler_headers fresh_response_def)
  qed
qed

text \<open>
  A server with an allow-list and a request from another origin; and a preflight request
  to the sample server, which allows all hosts.
\<close>

theorem responses_before_header_middleware_witness:
  "cors_middleware (srv_config (sample_server (JArr [JStr ''https://app.example''] [])))
       ((sample_request Info (JObj []))
          \<lparr>headers := [''origin'' \<mapsto> ''https://other.example'']\<rparr>)
     = Inl (js_Error ''Origin https://other.example not allowed by CORS policy'')
   \<and> handle (sample_server (JArr [JStr ''https://app.example''] [])) sample_env
       ((sample_request Info (JObj []))
          \<lparr>headers := [''origin'' \<mapsto> ''https://other.example'']\<rparr>) no_file
     = (Responded
          \<lparr>statusCode = 500, res_headers = [],
           content = Json (JObj [(''timestamp'', JStr ''2018-05-01T12:00:00.000Z''),
                       (''error'',
                        JStr ''Origin https://other.example not allowed by CORS policy''),
                       (''httpStatus'', JNum 500)])\<rparr>, no_file)
   \<and> req_method ((sample_request PostTrace (JObj []))\<lparr>req_method := ''OPTIONS''\<rparr>) = ''OPTIONS''
   \<and> handle (sample_server all_hosts) sample_env
       ((sample_request PostTrace (JObj []))\<lparr>req_method := ''OPTIONS''\<rparr>) no_file
     = (Responded \<lparr>statusCode = 204, res_headers = [], content = NoContent\<rparr>, no_file)"
proof -
  let ?S = "sample_server (JArr [JStr ''https://app.example''] [])"
  let ?req = "(sample_request Info (JObj []))
                \<lparr>headers := [''origin'' \<mapsto> ''https://other.example'']\<rparr>"
  let ?pre = "(sample_request PostTrace (JObj []))\<lparr>req_method := ''OPTIONS''\<rparr>"
  let ?r = "\<lparr>statusCode = 500, res_headers = [],
           content = Json (JObj [(''timestamp'', JStr ''2018-05-01T12:00:00.000Z''),
                       (''error'',
                        JStr ''Origin https://other.example not allowed by CORS policy''),
                       (''httpStatus'', JNum 500)])\<rparr>"
  have c: "cors_middleware (srv_config ?S) ?req
             = Inl (js_Error ''Origin https://other.example not allowed by CORS policy'')"
    by (simp add: cors_middleware_def cors_all_hosts_def cors_origin_def header_def
        sample_server_def sample_config_def CORS_ALL_HOSTS_ENABLED_def sample_request_def)
  have h: "handle ?S sample_env ?req no_file = (Responded ?r, no_file)"
    by (simp add: handle_def c error_handler_js_Error error_envelope_def json_def
        status_def fresh_response_def sample_env_def)
  have m: "req_method ?pre = ''OPTIONS''"
    by simp
  have o: "handle (sample_server all_hosts) sample_env ?pre no_file
             = (Responded \<lparr>statusCode = 204, res_headers = [], content = NoContent\<rparr>,
                no_file)"
    by (simp add: handle_def cors_sample status_def fresh_response_def)
  have "cors_middleware (srv_config ?S) ?req
          = Inl (js_Error ''Origin https://other.example not allowed by CORS policy'')
        \<or> req_method ?req = ''OPTIONS''
        \<or> body ?req = Inl (js_Error ''Origin https://other.example not allowed by CORS policy'')"
    using c by simp
  from responses_before_header_middleware [OF this h]
  have "res_headers ?r = []" .
  moreover have "cors_middleware (srv_config (sample_server all_hosts)) ?pre = Inl JNull
        \<or> req_method ?pre = ''OPTIONS'' \<or> body ?pre = Inl JNull"
    using m by simp
  from responses_before_header_middleware [OF this o]
  have "res_headers \<lparr>statusCode = 204, res_headers = [], content = NoContent\<rparr> = []" .
  ultimately show ?thesis using c h m o by simp
qed

section \<open>Startup\<close>

text \<open>
  C10. The module binds no \<^verbatim>\<open>getTransportNameFromId\<close>, so the call in the constructor
  looks the name up in the global object; where it is not a global either, the
  constructor throws the \<^verbatim>\<open>ReferenceError\<close> for every configuration, the default
  included, before \<^verbatim>\<open>getTransport\<close> is called: no server is ever constructed.
\<close>

theorem constructor_throws:
  "''getTransportNameFromId'' \<notin> set module_bindings \<and>
   (globals A ''getTransportNameFromId'' = None \<longrightarrow>
      Server_constructor A arg = Inl (js_Error ''getTransportNameFromId is not defined''))"
  by (simp add: module_bindings_def Server_constructor_def call_free_def Let_def)

theorem constructor_throws_witness:
  "globals sample_ambient ''getTransportNameFromId'' = None
   \<and> Server_constructor sample_ambient None
       = Inl (js_Error ''getTransportNameFromId is not defined'')
   \<and> Server_constructor sample_ambient (Some (sample_config all_hosts))
       = Inl (js_Error ''getTransportNameFromId is not defined'')"
proof -
  have h: "globals sample_ambient ''getTransportNameFromId'' = None"
    by (simp add: sample_ambient_def)
  from constructor_throws [of sample_ambient None]
    constructor_throws [of sample_ambient "Some (sample_config all_hosts)"]
  show ?thesis using h by simp
qed


end
